theory Spec2Isabelle
  imports Main
begin

section \<open>Go values the functions handle\<close>

subsection \<open>Errors\<close>

text \<open>
  A Go \<^verbatim>\<open>error\<close> is an interface value: a dynamic type, the text of \<^verbatim>\<open>Error()\<close>
  and, for wrapping types, the error \<^verbatim>\<open>Unwrap()\<close> returns. The nil error is
  \<open>None\<close> of \<open>error option\<close>. Only the dynamic types the functions tell apart get a
  constructor of their own; the others are kept by name, split by whether they
  implement \<^verbatim>\<open>smithy.APIError\<close>.
\<close>

datatype dyntype =
    SnsNotFoundException    \<comment> \<open>\<^verbatim>\<open>*snstypes.NotFoundException\<close>\<close>
  | SqsQueueDoesNotExist    \<comment> \<open>\<^verbatim>\<open>*sqstypes.QueueDoesNotExist\<close>\<close>
  | OtherAPIError string    \<comment> \<open>any other type implementing \<^verbatim>\<open>smithy.APIError\<close>\<close>
  | FmtWrapError            \<comment> \<open>\<^verbatim>\<open>*fmt.wrapError\<close>, what \<^verbatim>\<open>fmt.Errorf\<close> with \<^verbatim>\<open>%w\<close> builds\<close>
  | OtherError string       \<comment> \<open>any other type, not an \<^verbatim>\<open>smithy.APIError\<close>\<close>

datatype error = Error (dynType: dyntype) (errMsg: string) (unwrapErr: "error option")

fun implementsAPIError :: "dyntype \<Rightarrow> bool" where
  "implementsAPIError SnsNotFoundException = True"
| "implementsAPIError SqsQueueDoesNotExist = True"
| "implementsAPIError (OtherAPIError n) = True"
| "implementsAPIError FmtWrapError = False"
| "implementsAPIError (OtherError n) = False"

text \<open>
  \<^verbatim>\<open>errors.As(err, &apiError)\<close> with \<^verbatim>\<open>apiError\<close> of type \<^verbatim>\<open>smithy.APIError\<close>: the
  first error of the \<^verbatim>\<open>Unwrap\<close> chain that implements the interface, if any. The
  chain is linear: an error wraps at most one error.
\<close>

fun errors_As_APIError :: "error \<Rightarrow> error option" where
  "errors_As_APIError (Error ty m nxt) =
     (if implementsAPIError ty then Some (Error ty m nxt)
      else case nxt of None \<Rightarrow> None | Some e \<Rightarrow> errors_As_APIError e)"

text \<open>\<^verbatim>\<open>fmt.Errorf(prefix + "%w", err)\<close> for a non-nil \<^verbatim>\<open>err\<close>.\<close>

definition fmt_Errorf_w :: "string \<Rightarrow> error \<Rightarrow> error" where
  "fmt_Errorf_w prefix e = Error FmtWrapError (prefix @ errMsg e) (Some e)"

text \<open>
  The test both attribute oracles apply to a failed query:
  \<^verbatim>\<open>errors.As\<close> to \<^verbatim>\<open>smithy.APIError\<close>, then a type switch whose only case is
  \<^verbatim>\<open>*snstypes.NotFoundException\<close>.
\<close>

definition isSnsNotFound :: "error \<Rightarrow> bool" where
  "isSnsNotFound e =
     (case errors_As_APIError e of
        None \<Rightarrow> False
      | Some apiError \<Rightarrow>
          (case dynType apiError of SnsNotFoundException \<Rightarrow> True | _ \<Rightarrow> False))"

subsection \<open>Logging\<close>

datatype level = LevelDebug | LevelWarn

datatype log_record = LogRecord level string "(string \<times> string) list"

type_synonym logger = "(string \<times> string) list"

definition slog_With :: "(string \<times> string) list \<Rightarrow> logger" where
  "slog_With attrs = attrs"

definition logger_Debug :: "logger \<Rightarrow> string \<Rightarrow> (string \<times> string) list \<Rightarrow> log_record" where
  "logger_Debug lg msg args = LogRecord LevelDebug msg (lg @ args)"

definition logger_Warn :: "logger \<Rightarrow> string \<Rightarrow> (string \<times> string) list \<Rightarrow> log_record" where
  "logger_Warn lg msg args = LogRecord LevelWarn msg (lg @ args)"

fun isWarn :: "log_record \<Rightarrow> bool" where
  "isWarn (LogRecord LevelWarn msg attrs) = True"
| "isWarn (LogRecord LevelDebug msg attrs) = False"

text \<open>
  \<^verbatim>\<open>fmt.Sprintf("%d", n)\<close> for a length \<open>n\<close>: its decimal digits. \<open>digit\<close> is only
  applied below ten.
\<close>

definition digit :: "nat \<Rightarrow> char" where
  "digit d = ''0123456789'' ! d"

fun fmt_d :: "nat \<Rightarrow> string" where
  "fmt_d n = (if n < 10 then [digit n] else fmt_d (n div 10) @ [digit (n mod 10)])"

subsection \<open>Outcome of a call\<close>

text \<open>
  A function either returns or panics (a nil pointer dereference). Beside that it
  leaves the log records it wrote, in order, and the provider's state after its call.
  The task, task definition and instance oracles read a field of the response without
  testing the response pointer: a nil response beside a nil error makes them panic. The
  subscription and queue oracles test it.
\<close>

datatype 'a outcome = Returns 'a | Panics

type_synonym ('a, 'w) run = "'a outcome \<times> log_record list \<times> 'w"

definition outcomeOf :: "('a, 'w) run \<Rightarrow> 'a outcome" where
  "outcomeOf r = fst r"

definition logOf :: "('a, 'w) run \<Rightarrow> log_record list" where
  "logOf r = fst (snd r)"

definition worldOf :: "('a, 'w) run \<Rightarrow> 'w" where
  "worldOf r = snd (snd r)"

section \<open>The provider\<close>

text \<open>
  The request and response structs of the SDK, with the fields the functions set or
  read. A pointer field is an \<open>option\<close>; a Go map is an \<open>option\<close> of a map, \<open>None\<close> the
  nil map. Fields of request structs carry the operation's name, since Isabelle record
  fields share one name space.
\<close>

definition aws_String :: "string \<Rightarrow> string option" where
  "aws_String s = Some s"

record Task =
  TaskArn :: "string option"
  LastStatus :: "string option"

record DescribeTasksInput =
  DescribeTasks_Cluster :: "string option"
  DescribeTasks_Tasks :: "string list"

record DescribeTasksOutput =
  Tasks :: "Task list"

record TaskDefinition =
  TaskDefinitionArn :: "string option"
  Status :: string

definition TaskDefinitionStatusActive :: string where
  "TaskDefinitionStatusActive = ''ACTIVE''"

record DescribeTaskDefinitionInput =
  DescribeTaskDefinition_TaskDefinition :: "string option"

record DescribeTaskDefinitionOutput =
  TaskDefinition :: "TaskDefinition option"

record GetSubscriptionAttributesInput =
  GetSubscriptionAttributes_SubscriptionArn :: "string option"

record GetSubscriptionAttributesOutput =
  sns_Attributes :: "(string \<rightharpoonup> string) option"

definition QueueAttributeNameQueueArn :: string where
  "QueueAttributeNameQueueArn = ''QueueArn''"

record GetQueueAttributesInput =
  GetQueueAttributes_QueueUrl :: "string option"
  GetQueueAttributes_AttributeNames :: "string list"

record GetQueueAttributesOutput =
  sqs_Attributes :: "(string \<rightharpoonup> string) option"

record Reservation =
  ReservationId :: "string option"

record DescribeInstancesInput =
  DescribeInstances_InstanceIds :: "string list"

record DescribeInstancesOutput =
  Reservations :: "Reservation list"

record StopTaskInput =
  StopTask_Cluster :: "string option"
  StopTask_Task :: "string option"

record DeregisterTaskDefinitionInput =
  DeregisterTaskDefinition_TaskDefinition :: "string option"

record UnsubscribeInput =
  Unsubscribe_SubscriptionArn :: "string option"

record DeleteQueueInput =
  DeleteQueue_QueueUrl :: "string option"

text \<open>The responses of the four mutations are discarded by their callers.\<close>

type_synonym StopTaskOutput = unit
type_synonym DeregisterTaskDefinitionOutput = unit
type_synonym UnsubscribeOutput = unit
type_synonym DeleteQueueOutput = unit

text \<open>
  Reading a Go map at a key: the zero value \<^verbatim>\<open>""\<close> where the key is absent.
\<close>

definition index_map :: "(string \<rightharpoonup> string) \<Rightarrow> string \<Rightarrow> string" where
  "index_map m k = (case m k of None \<Rightarrow> [] | Some v \<Rightarrow> v)"

text \<open>
  An operation of the provider takes the caller's context and the request, and yields
  Go's pair \<^verbatim>\<open>(out, err)\<close> together with the provider's new state \<open>'w\<close>. The
  \<^verbatim>\<open>aws.Config\<close> stands for the provider behind it: every
  \<^verbatim>\<open>NewFromConfig(cfg)\<close> client forwards to these operations.
\<close>

type_synonym ('ctx, 'i, 'o, 'w) operation =
  "'ctx \<Rightarrow> 'i \<Rightarrow> 'w \<Rightarrow> ('o option \<times> error option) \<times> 'w"

record ('ctx, 'w) aws_Config =
  ecs_DescribeTasks :: "('ctx, DescribeTasksInput, DescribeTasksOutput, 'w) operation"
  ecs_DescribeTaskDefinition ::
    "('ctx, DescribeTaskDefinitionInput, DescribeTaskDefinitionOutput, 'w) operation"
  sns_GetSubscriptionAttributes ::
    "('ctx, GetSubscriptionAttributesInput, GetSubscriptionAttributesOutput, 'w) operation"
  sqs_GetQueueAttributes ::
    "('ctx, GetQueueAttributesInput, GetQueueAttributesOutput, 'w) operation"
  ec2_DescribeInstances ::
    "('ctx, DescribeInstancesInput, DescribeInstancesOutput, 'w) operation"
  ecs_StopTask :: "('ctx, StopTaskInput, StopTaskOutput, 'w) operation"
  ecs_DeregisterTaskDefinition ::
    "('ctx, DeregisterTaskDefinitionInput, DeregisterTaskDefinitionOutput, 'w) operation"
  sns_Unsubscribe :: "('ctx, UnsubscribeInput, UnsubscribeOutput, 'w) operation"
  sqs_DeleteQueue :: "('ctx, DeleteQueueInput, DeleteQueueOutput, 'w) operation"

section \<open>Liveness Oracle\<close>

subsection \<open>Compute task\<close>

text \<open>
  The \<^verbatim>\<open>for _, ta := range out.Tasks\<close> loop of \<^verbatim>\<open>isTaskActive\<close>. \<open>Some\<close> is a
  \<^verbatim>\<open>return\<close> from inside the loop, with the records logged on the way; \<open>None\<close> is
  the loop running to its end.
\<close>

fun rangeTasks :: "logger \<Rightarrow> string \<Rightarrow> Task list \<Rightarrow> ((bool \<times> error option) \<times> log_record list) option" where
  "rangeTasks lg taskArn [] = None"
| "rangeTasks lg taskArn (ta # rest) =
     (if TaskArn ta \<noteq> None \<and> TaskArn ta = Some taskArn then
        (case LastStatus ta of
           Some st \<Rightarrow>
             (if st = ''DEACTIVATING'' \<or>
                 st = ''STOPPING'' \<or>
                 st = ''DEPROVISIONING'' \<or>
                 st = ''STOPPED'' \<or>
                 st = ''DELETED''
              then Some ((False, None), [logger_Debug lg ''task found'' [(''status'', st)]])
              else Some ((True, None), [logger_Debug lg ''task found'' [(''status'', st)]]))
         | None \<Rightarrow>
             Some ((True, None), [logger_Warn lg ''task found, but cannot read status'' []]))
      else rangeTasks lg taskArn rest)"

definition isTaskActive ::
  "('ctx, 'w) aws_Config \<Rightarrow> 'ctx \<Rightarrow> string \<Rightarrow> string \<Rightarrow> 'w \<Rightarrow> (bool \<times> error option, 'w) run" where
  "isTaskActive cfg ctx ecsClusterArn taskArn w =
     (let lg = slog_With [(''arn'', taskArn), (''cluster_arn'', ecsClusterArn)];
          log0 = [logger_Debug lg ''checking if task is active'' []];
          inp = \<lparr>DescribeTasks_Cluster = aws_String ecsClusterArn,
                 DescribeTasks_Tasks = [taskArn]\<rparr>
      in case ecs_DescribeTasks cfg ctx inp w of
           ((out, err), w') \<Rightarrow>
             (case err of
                Some e \<Rightarrow> (Returns (True, Some (fmt_Errorf_w ''describe tasks: '' e)), log0, w')
              | None \<Rightarrow>
                  (case out of
                     None \<Rightarrow> (Panics, log0, w')
                   | Some resp \<Rightarrow>
                       (case rangeTasks lg taskArn (Tasks resp) of
                          Some (r, lgs) \<Rightarrow> (Returns r, log0 @ lgs, w')
                        | None \<Rightarrow>
                            (Returns (False, None),
                             log0 @ [logger_Debug lg ''task not found'' []], w')))))"

subsection \<open>Task definition\<close>

definition isTaskDefinitionActive ::
  "('ctx, 'w) aws_Config \<Rightarrow> 'ctx \<Rightarrow> string \<Rightarrow> 'w \<Rightarrow> (bool \<times> error option, 'w) run" where
  "isTaskDefinitionActive cfg ctx arn w =
     (let lg = slog_With [(''arn'', arn)];
          log0 = [logger_Debug lg ''checking if task definition is active'' []];
          inp = \<lparr>DescribeTaskDefinition_TaskDefinition = aws_String arn\<rparr>
      in case ecs_DescribeTaskDefinition cfg ctx inp w of
           ((out, err), w') \<Rightarrow>
             (case err of
                Some e \<Rightarrow>
                  (Returns (True, Some (fmt_Errorf_w ''describe task definition: '' e)), log0, w')
              | None \<Rightarrow>
                  (case out of
                     None \<Rightarrow> (Panics, log0, w')
                   | Some resp \<Rightarrow>
                       (case TaskDefinition resp of
                          Some td \<Rightarrow>
                            (if TaskDefinitionArn td \<noteq> None \<and> TaskDefinitionArn td = Some arn then
                               (if Status td = TaskDefinitionStatusActive then
                                  (Returns (True, None),
                                   log0 @ [logger_Debug lg ''task definition active'' []], w')
                                else
                                  (Returns (False, None),
                                   log0 @ [logger_Debug lg ''task definition not active'' []], w'))
                             else
                               (Returns (False, None),
                                log0 @ [logger_Debug lg ''task definition not found'' []], w'))
                        | None \<Rightarrow>
                            (Returns (False, None),
                             log0 @ [logger_Debug lg ''task definition not found'' []], w')))))"

subsection \<open>Subscription\<close>

definition isSnsSubscriptionActive ::
  "('ctx, 'w) aws_Config \<Rightarrow> 'ctx \<Rightarrow> string \<Rightarrow> 'w \<Rightarrow> (bool \<times> error option, 'w) run" where
  "isSnsSubscriptionActive cfg ctx arn w =
     (let lg = slog_With [(''arn'', arn)];
          log0 = [logger_Debug lg ''checking if subscription is active'' []];
          inp = \<lparr>GetSubscriptionAttributes_SubscriptionArn = aws_String arn\<rparr>
      in case sns_GetSubscriptionAttributes cfg ctx inp w of
           ((out, err), w') \<Rightarrow>
             (case err of
                Some e \<Rightarrow>
                  (if isSnsNotFound e then (Returns (False, None), log0, w')
                   else
                     (Returns (True, Some (fmt_Errorf_w ''get subscription attributes: '' e)),
                      log0, w'))
              | None \<Rightarrow>
                  (case out of
                     None \<Rightarrow>
                       (Returns (False, None),
                        log0 @ [logger_Debug lg ''no attributes found'' []], w')
                   | Some resp \<Rightarrow>
                       (case sns_Attributes resp of
                          None \<Rightarrow>
                            (Returns (False, None),
                             log0 @ [logger_Debug lg ''no attributes found'' []], w')
                        | Some attrs \<Rightarrow>
                            (if index_map attrs ''TopicArn'' \<noteq> [] then
                               (Returns (True, None),
                                log0 @ [logger_Debug lg ''topic found'' []], w')
                             else
                               (Returns (False, None),
                                log0 @ [logger_Debug lg ''no topic found'' []], w'))))))"

subsection \<open>Queue\<close>

definition isSqsQueueActive ::
  "('ctx, 'w) aws_Config \<Rightarrow> 'ctx \<Rightarrow> string \<Rightarrow> 'w \<Rightarrow> (bool \<times> error option, 'w) run" where
  "isSqsQueueActive cfg ctx url w =
     (let lg = slog_With [(''url'', url)];
          log0 = [logger_Debug lg ''checking if queue is active'' []];
          inp = \<lparr>GetQueueAttributes_QueueUrl = aws_String url,
                 GetQueueAttributes_AttributeNames = [QueueAttributeNameQueueArn]\<rparr>
      in case sqs_GetQueueAttributes cfg ctx inp w of
           ((out, err), w') \<Rightarrow>
             (case err of
                Some e \<Rightarrow>
                  (if isSnsNotFound e then (Returns (False, None), log0, w')
                   else
                     (Returns (True, Some (fmt_Errorf_w ''get subscription attributes: '' e)),
                      log0, w'))
              | None \<Rightarrow>
                  (case out of
                     None \<Rightarrow>
                       (Returns (False, None),
                        log0 @ [logger_Debug lg ''no attributes found'' []], w')
                   | Some resp \<Rightarrow>
                       (case sqs_Attributes resp of
                          None \<Rightarrow>
                            (Returns (False, None),
                             log0 @ [logger_Debug lg ''no attributes found'' []], w')
                        | Some attrs \<Rightarrow>
                            (if index_map attrs ''QueueArn'' \<noteq> [] then
                               (Returns (True, None),
                                log0 @ [logger_Debug lg ''queue arn found'' []], w')
                             else
                               (Returns (False, None),
                                log0 @ [logger_Debug lg ''no queue found'' []], w'))))))"

subsection \<open>VM instance\<close>

definition isEc2InstanceActive ::
  "('ctx, 'w) aws_Config \<Rightarrow> 'ctx \<Rightarrow> string \<Rightarrow> 'w \<Rightarrow> (bool \<times> error option, 'w) run" where
  "isEc2InstanceActive cfg ctx instanceID w =
     (let lg = slog_With [(''instance_id'', instanceID)];
          log0 = [logger_Debug lg ''checking if ec2 instance is active'' []];
          inp = \<lparr>DescribeInstances_InstanceIds = [instanceID]\<rparr>
      in case ec2_DescribeInstances cfg ctx inp w of
           ((out, err), w') \<Rightarrow>
             (case err of
                Some e \<Rightarrow>
                  (Returns (True, Some (fmt_Errorf_w ''describe ec2 instances: '' e)), log0, w')
              | None \<Rightarrow>
                  (case out of
                     None \<Rightarrow> (Panics, log0, w')
                   | Some resp \<Rightarrow>
                       (if length (Reservations resp) = 0 then
                          (Returns (False, None),
                           log0 @ [logger_Debug lg ''no reservations found'' []], w')
                        else if length (Reservations resp) = 1 then
                          (Returns (True, None),
                           log0 @ [logger_Debug lg ''reservation still active'' []], w')
                        else
                          (Returns (True, None),
                           log0 @ [logger_Warn lg
                                     (''unexpected number of instance reservations found: '' @
                                      fmt_d (length (Reservations resp))) []], w')))))"

section \<open>Teardown Executor\<close>

definition stopEcsTask ::
  "('ctx, 'w) aws_Config \<Rightarrow> 'ctx \<Rightarrow> string \<Rightarrow> string \<Rightarrow> 'w \<Rightarrow> (error option, 'w) run" where
  "stopEcsTask cfg ctx ecsClusterArn taskArn w =
     (let inp = \<lparr>StopTask_Cluster = aws_String ecsClusterArn,
                 StopTask_Task = aws_String taskArn\<rparr>
      in case ecs_StopTask cfg ctx inp w of
           ((out, err), w') \<Rightarrow>
             (case err of
                Some e \<Rightarrow> (Returns (Some (fmt_Errorf_w ''stop task: '' e)), [], w')
              | None \<Rightarrow> (Returns None, [], w')))"

definition deregisterEcsTaskDefinition ::
  "('ctx, 'w) aws_Config \<Rightarrow> 'ctx \<Rightarrow> string \<Rightarrow> 'w \<Rightarrow> (error option, 'w) run" where
  "deregisterEcsTaskDefinition cfg ctx arn w =
     (let inp = \<lparr>DeregisterTaskDefinition_TaskDefinition = aws_String arn\<rparr>
      in case ecs_DeregisterTaskDefinition cfg ctx inp w of
           ((out, err), w') \<Rightarrow>
             (case err of
                Some e \<Rightarrow> (Returns (Some (fmt_Errorf_w ''deregister task definition: '' e)), [], w')
              | None \<Rightarrow> (Returns None, [], w')))"

definition unsubscribeSqsQueue ::
  "('ctx, 'w) aws_Config \<Rightarrow> 'ctx \<Rightarrow> string \<Rightarrow> 'w \<Rightarrow> (error option, 'w) run" where
  "unsubscribeSqsQueue cfg ctx arn w =
     (let inp = \<lparr>Unsubscribe_SubscriptionArn = aws_String arn\<rparr>
      in case sns_Unsubscribe cfg ctx inp w of
           ((out, err), w') \<Rightarrow>
             (case err of
                Some e \<Rightarrow>
                  (Returns (Some (fmt_Errorf_w ''unsubscribe from request topic: '' e)), [], w')
              | None \<Rightarrow> (Returns None, [], w')))"

definition deleteSqsQueue ::
  "('ctx, 'w) aws_Config \<Rightarrow> 'ctx \<Rightarrow> string \<Rightarrow> 'w \<Rightarrow> (error option, 'w) run" where
  "deleteSqsQueue cfg ctx queueURL w =
     (let inp = \<lparr>DeleteQueue_QueueUrl = aws_String queueURL\<rparr>
      in case sqs_DeleteQueue cfg ctx inp w of
           ((out, err), w') \<Rightarrow>
             (case err of
                Some e \<Rightarrow> (Returns (Some (fmt_Errorf_w ''delete queue: '' e)), [], w')
              | None \<Rightarrow> (Returns None, [], w')))"

section \<open>A scripted provider\<close>

text \<open>
  A provider for concrete runs: every operation counts the call in the state, a
  natural number, and answers with a fixed pair \<^verbatim>\<open>(out, err)\<close>.
\<close>

definition replyWith :: "'o option \<times> error option \<Rightarrow> (unit, 'i, 'o, nat) operation" where
  "replyWith r ctx inp w = (r, Suc w)"

definition idleConfig :: "(unit, nat) aws_Config" where
  "idleConfig =
     \<lparr>ecs_DescribeTasks = replyWith (None, None),
      ecs_DescribeTaskDefinition = replyWith (None, None),
      sns_GetSubscriptionAttributes = replyWith (None, None),
      sqs_GetQueueAttributes = replyWith (None, None),
      ec2_DescribeInstances = replyWith (None, None),
      ecs_StopTask = replyWith (None, None),
      ecs_DeregisterTaskDefinition = replyWith (None, None),
      sns_Unsubscribe = replyWith (None, None),
      sqs_DeleteQueue = replyWith (None, None)\<rparr>"

text \<open>The three parts of what an operation yields.\<close>

definition callOut :: "('o option \<times> error option) \<times> 'w \<Rightarrow> 'o option" where
  "callOut r = fst (fst r)"

definition callErr :: "('o option \<times> error option) \<times> 'w \<Rightarrow> error option" where
  "callErr r = snd (fst r)"

definition callWorld :: "('o option \<times> error option) \<times> 'w \<Rightarrow> 'w" where
  "callWorld r = snd r"

text \<open>
  Errors as the SDK hands them over: the operation error on the outside, the cause
  inside. A cancelled context, a throttled request, a subscription that does not
  exist, a queue that does not exist.
\<close>

definition canceled :: error where
  "canceled =
     Error (OtherError ''*smithy.OperationError'') ''operation error: context canceled''
       (Some (Error (OtherError ''*errors.errorString'') ''context canceled'' None))"

definition throttled :: error where
  "throttled =
     Error (OtherError ''*smithy.OperationError'') ''operation error: Throttling''
       (Some (Error (OtherAPIError ''*smithy.GenericAPIError'') ''Throttling'' None))"

definition subscriptionGone :: error where
  "subscriptionGone =
     Error (OtherError ''*smithy.OperationError'') ''operation error SNS: NotFound''
       (Some (Error SnsNotFoundException ''NotFound'' None))"

definition queueGone :: error where
  "queueGone =
     Error (OtherError ''*smithy.OperationError'') ''operation error SQS: NonExistentQueue''
       (Some (Error SqsQueueDoesNotExist ''NonExistentQueue'' None))"

text \<open>A provider whose five queries and four mutations all fail with the given error.\<close>

definition failingConfig :: "error \<Rightarrow> (unit, nat) aws_Config" where
  "failingConfig e =
     \<lparr>ecs_DescribeTasks = replyWith (None, Some e),
      ecs_DescribeTaskDefinition = replyWith (None, Some e),
      sns_GetSubscriptionAttributes = replyWith (None, Some e),
      sqs_GetQueueAttributes = replyWith (None, Some e),
      ec2_DescribeInstances = replyWith (None, Some e),
      ecs_StopTask = replyWith (None, Some e),
      ecs_DeregisterTaskDefinition = replyWith (None, Some e),
      sns_Unsubscribe = replyWith (None, Some e),
      sqs_DeleteQueue = replyWith (None, Some e)\<rparr>"

text \<open>Responses of the task query used in concrete runs.\<close>

definition stoppedTask :: DescribeTasksOutput where
  "stoppedTask =
     \<lparr>Tasks = [\<lparr>TaskArn = Some ''arn:aws:ecs:task/123'', LastStatus = Some ''STOPPED''\<rparr>]\<rparr>"

definition unreadableThenStopped :: DescribeTasksOutput where
  "unreadableThenStopped =
     \<lparr>Tasks = [\<lparr>TaskArn = Some ''t'', LastStatus = None\<rparr>,
               \<lparr>TaskArn = Some ''t'', LastStatus = Some ''STOPPED''\<rparr>]\<rparr>"

definition noMatchingTask :: DescribeTasksOutput where
  "noMatchingTask =
     \<lparr>Tasks = [\<lparr>TaskArn = None, LastStatus = Some ''RUNNING''\<rparr>,
               \<lparr>TaskArn = Some ''other'', LastStatus = Some ''RUNNING''\<rparr>]\<rparr>"

definition mixedTasks :: DescribeTasksOutput where
  "mixedTasks =
     \<lparr>Tasks = [\<lparr>TaskArn = None, LastStatus = Some ''RUNNING''\<rparr>,
               \<lparr>TaskArn = Some ''other'', LastStatus = Some ''RUNNING''\<rparr>,
               \<lparr>TaskArn = Some ''t'', LastStatus = None\<rparr>,
               \<lparr>TaskArn = Some ''t'', LastStatus = Some ''STOPPED''\<rparr>]\<rparr>"

text \<open>Responses of the task definition query used in concrete runs.\<close>

definition inactiveDefinition :: DescribeTaskDefinitionOutput where
  "inactiveDefinition =
     \<lparr>TaskDefinition =
        Some \<lparr>TaskDefinitionArn = Some ''arn:task-definition/foo:3'', Status = ''INACTIVE''\<rparr>\<rparr>"

definition activeDefinition :: DescribeTaskDefinitionOutput where
  "activeDefinition =
     \<lparr>TaskDefinition =
        Some \<lparr>TaskDefinitionArn = Some ''arn:task-definition/foo:3'', Status = ''ACTIVE''\<rparr>\<rparr>"

text \<open>Responses of the attribute queries and of the instance query used in concrete runs.\<close>

definition emptySubscription :: GetSubscriptionAttributesOutput where
  "emptySubscription = \<lparr>sns_Attributes = Some Map.empty\<rparr>"

definition emptyQueue :: GetQueueAttributesOutput where
  "emptyQueue = \<lparr>sqs_Attributes = Some Map.empty\<rparr>"

definition reservations :: "nat \<Rightarrow> DescribeInstancesOutput" where
  "reservations n = \<lparr>Reservations = replicate n \<lparr>ReservationId = Some ''r''\<rparr>\<rparr>"

section \<open>Properties\<close>

subsection \<open>Reading a run\<close>

lemma outcomeOf_simp: "outcomeOf (a, b, c) = a"
  by (simp add: outcomeOf_def)

lemma logOf_simp: "logOf (a, b, c) = b"
  by (simp add: logOf_def)

lemma worldOf_simp: "worldOf (a, b, c) = c"
  by (simp add: worldOf_def)

subsection \<open>Failed queries\<close>

lemma isTaskActive_err:
  "callErr (ecs_DescribeTasks cfg ctx
      \<lparr>DescribeTasks_Cluster = Some ecsClusterArn, DescribeTasks_Tasks = [taskArn]\<rparr> w) = Some e \<Longrightarrow>
   outcomeOf (isTaskActive cfg ctx ecsClusterArn taskArn w) =
     Returns (True, Some (fmt_Errorf_w ''describe tasks: '' e))"
  by (auto simp add: isTaskActive_def Let_def aws_String_def outcomeOf_simp callErr_def
        split: prod.splits)

lemma isTaskDefinitionActive_err:
  "callErr (ecs_DescribeTaskDefinition cfg ctx
      \<lparr>DescribeTaskDefinition_TaskDefinition = Some arn\<rparr> w) = Some e \<Longrightarrow>
   outcomeOf (isTaskDefinitionActive cfg ctx arn w) =
     Returns (True, Some (fmt_Errorf_w ''describe task definition: '' e))"
  by (auto simp add: isTaskDefinitionActive_def Let_def aws_String_def outcomeOf_simp callErr_def
        split: prod.splits)

lemma isSnsSubscriptionActive_err:
  "callErr (sns_GetSubscriptionAttributes cfg ctx
      \<lparr>GetSubscriptionAttributes_SubscriptionArn = Some arn\<rparr> w) = Some e \<Longrightarrow>
   outcomeOf (isSnsSubscriptionActive cfg ctx arn w) =
     (if isSnsNotFound e then Returns (False, None)
      else Returns (True, Some (fmt_Errorf_w ''get subscription attributes: '' e)))"
  by (auto simp add: isSnsSubscriptionActive_def Let_def aws_String_def outcomeOf_simp callErr_def
        split: prod.splits)

lemma isSqsQueueActive_err:
  "callErr (sqs_GetQueueAttributes cfg ctx
      \<lparr>GetQueueAttributes_QueueUrl = Some url,
       GetQueueAttributes_AttributeNames = [''QueueArn'']\<rparr> w) = Some e \<Longrightarrow>
   outcomeOf (isSqsQueueActive cfg ctx url w) =
     (if isSnsNotFound e then Returns (False, None)
      else Returns (True, Some (fmt_Errorf_w ''get subscription attributes: '' e)))"
  by (auto simp add: isSqsQueueActive_def Let_def aws_String_def outcomeOf_simp callErr_def
        QueueAttributeNameQueueArn_def split: prod.splits)

lemma isEc2InstanceActive_err:
  "callErr (ec2_DescribeInstances cfg ctx
      \<lparr>DescribeInstances_InstanceIds = [instanceID]\<rparr> w) = Some e \<Longrightarrow>
   outcomeOf (isEc2InstanceActive cfg ctx instanceID w) =
     Returns (True, Some (fmt_Errorf_w ''describe ec2 instances: '' e))"
  by (auto simp add: isEc2InstanceActive_def Let_def outcomeOf_simp callErr_def
        split: prod.splits)

subsection \<open>No verdict of inactive beside an error\<close>

lemma rangeTasks_no_error:
  "rangeTasks lg taskArn tasks = Some ((v, err), lgs) \<Longrightarrow> err = None"
  by (induction tasks) (auto split: if_splits option.splits)

lemma isTaskActive_never_false_err:
  "outcomeOf (isTaskActive cfg ctx ecsClusterArn taskArn w) \<noteq> Returns (False, Some e')"
  by (auto simp add: isTaskActive_def Let_def outcomeOf_simp
        split: prod.splits option.splits dest: rangeTasks_no_error)

lemma isTaskDefinitionActive_never_false_err:
  "outcomeOf (isTaskDefinitionActive cfg ctx arn w) \<noteq> Returns (False, Some e')"
  by (simp add: isTaskDefinitionActive_def Let_def outcomeOf_simp
        split: prod.splits option.splits)

lemma isSnsSubscriptionActive_never_false_err:
  "outcomeOf (isSnsSubscriptionActive cfg ctx arn w) \<noteq> Returns (False, Some e')"
  by (simp add: isSnsSubscriptionActive_def Let_def outcomeOf_simp
        split: prod.splits option.splits)

lemma isSqsQueueActive_never_false_err:
  "outcomeOf (isSqsQueueActive cfg ctx url w) \<noteq> Returns (False, Some e')"
  by (simp add: isSqsQueueActive_def Let_def outcomeOf_simp
        split: prod.splits option.splits)

lemma isEc2InstanceActive_never_false_err:
  "outcomeOf (isEc2InstanceActive cfg ctx instanceID w) \<noteq> Returns (False, Some e')"
  by (simp add: isEc2InstanceActive_def Let_def outcomeOf_simp
        split: prod.splits option.splits)

text \<open>
  C1: in each of the five oracles (compute task, task definition, subscription, queue,
  VM instance), when the provider query returns an error that the oracle does not class
  as not-found, the oracle returns the verdict active (\<open>True\<close>) together with a non-nil
  error, the query's error wrapped. The task, task definition and instance oracles class
  no error as not-found, so this holds there for every error. No oracle ever returns
  inactive (\<open>False\<close>) beside a non-nil error.
\<close>

theorem query_error_fail_safe:
  "(callErr (ecs_DescribeTasks cfg ctx
       \<lparr>DescribeTasks_Cluster = Some ecsClusterArn, DescribeTasks_Tasks = [taskArn]\<rparr> w) = Some e \<longrightarrow>
      outcomeOf (isTaskActive cfg ctx ecsClusterArn taskArn w) =
        Returns (True, Some (fmt_Errorf_w ''describe tasks: '' e))) \<and>
   (callErr (ecs_DescribeTaskDefinition cfg ctx
       \<lparr>DescribeTaskDefinition_TaskDefinition = Some arn\<rparr> w) = Some e \<longrightarrow>
      outcomeOf (isTaskDefinitionActive cfg ctx arn w) =
        Returns (True, Some (fmt_Errorf_w ''describe task definition: '' e))) \<and>
   (callErr (sns_GetSubscriptionAttributes cfg ctx
       \<lparr>GetSubscriptionAttributes_SubscriptionArn = Some arn\<rparr> w) = Some e \<and>
    \<not> isSnsNotFound e \<longrightarrow>
      outcomeOf (isSnsSubscriptionActive cfg ctx arn w) =
        Returns (True, Some (fmt_Errorf_w ''get subscription attributes: '' e))) \<and>
   (callErr (sqs_GetQueueAttributes cfg ctx
       \<lparr>GetQueueAttributes_QueueUrl = Some url,
        GetQueueAttributes_AttributeNames = [''QueueArn'']\<rparr> w) = Some e \<and>
    \<not> isSnsNotFound e \<longrightarrow>
      outcomeOf (isSqsQueueActive cfg ctx url w) =
        Returns (True, Some (fmt_Errorf_w ''get subscription attributes: '' e))) \<and>
   (callErr (ec2_DescribeInstances cfg ctx
       \<lparr>DescribeInstances_InstanceIds = [instanceID]\<rparr> w) = Some e \<longrightarrow>
      outcomeOf (isEc2InstanceActive cfg ctx instanceID w) =
        Returns (True, Some (fmt_Errorf_w ''describe ec2 instances: '' e))) \<and>
   outcomeOf (isTaskActive cfg ctx ecsClusterArn taskArn w) \<noteq> Returns (False, Some e') \<and>
   outcomeOf (isTaskDefinitionActive cfg ctx arn w) \<noteq> Returns (False, Some e') \<and>
   outcomeOf (isSnsSubscriptionActive cfg ctx arn w) \<noteq> Returns (False, Some e') \<and>
   outcomeOf (isSqsQueueActive cfg ctx url w) \<noteq> Returns (False, Some e') \<and>
   outcomeOf (isEc2InstanceActive cfg ctx instanceID w) \<noteq> Returns (False, Some e')"
proof (intro conjI impI)
  show "outcomeOf (isTaskActive cfg ctx ecsClusterArn taskArn w) \<noteq> Returns (False, Some e')"
    by (rule isTaskActive_never_false_err)
  show "outcomeOf (isTaskDefinitionActive cfg ctx arn w) \<noteq> Returns (False, Some e')"
    by (rule isTaskDefinitionActive_never_false_err)
  show "outcomeOf (isSnsSubscriptionActive cfg ctx arn w) \<noteq> Returns (False, Some e')"
    by (rule isSnsSubscriptionActive_never_false_err)
  show "outcomeOf (isSqsQueueActive cfg ctx url w) \<noteq> Returns (False, Some e')"
    by (rule isSqsQueueActive_never_false_err)
  show "outcomeOf (isEc2InstanceActive cfg ctx instanceID w) \<noteq> Returns (False, Some e')"
    by (rule isEc2InstanceActive_never_false_err)
qed (simp_all add: isTaskActive_err isTaskDefinitionActive_err isSnsSubscriptionActive_err
       isSqsQueueActive_err isEc2InstanceActive_err)

theorem query_error_fail_safe_witness:
  "callErr (ecs_DescribeTasks (failingConfig throttled) ()
       \<lparr>DescribeTasks_Cluster = Some ''c'', DescribeTasks_Tasks = [''t'']\<rparr> 0) = Some throttled \<and>
   callErr (ecs_DescribeTaskDefinition (failingConfig throttled) ()
       \<lparr>DescribeTaskDefinition_TaskDefinition = Some ''a''\<rparr> 0) = Some throttled \<and>
   callErr (sns_GetSubscriptionAttributes (failingConfig throttled) ()
       \<lparr>GetSubscriptionAttributes_SubscriptionArn = Some ''a''\<rparr> 0) = Some throttled \<and>
   callErr (sqs_GetQueueAttributes (failingConfig throttled) ()
       \<lparr>GetQueueAttributes_QueueUrl = Some ''u'',
        GetQueueAttributes_AttributeNames = [''QueueArn'']\<rparr> 0) = Some throttled \<and>
   callErr (ec2_DescribeInstances (failingConfig throttled) ()
       \<lparr>DescribeInstances_InstanceIds = [''i'']\<rparr> 0) = Some throttled \<and>
   \<not> isSnsNotFound throttled \<and>
   outcomeOf (isTaskActive (failingConfig throttled) () ''c'' ''t'' 0) =
     Returns (True, Some (fmt_Errorf_w ''describe tasks: '' throttled)) \<and>
   outcomeOf (isTaskDefinitionActive (failingConfig throttled) () ''a'' 0) =
     Returns (True, Some (fmt_Errorf_w ''describe task definition: '' throttled)) \<and>
   outcomeOf (isSnsSubscriptionActive (failingConfig throttled) () ''a'' 0) =
     Returns (True, Some (fmt_Errorf_w ''get subscription attributes: '' throttled)) \<and>
   outcomeOf (isSqsQueueActive (failingConfig throttled) () ''u'' 0) =
     Returns (True, Some (fmt_Errorf_w ''get subscription attributes: '' throttled)) \<and>
   outcomeOf (isEc2InstanceActive (failingConfig throttled) () ''i'' 0) =
     Returns (True, Some (fmt_Errorf_w ''describe ec2 instances: '' throttled))"
proof -
  have nf: "\<not> isSnsNotFound throttled"
    by (simp add: isSnsNotFound_def throttled_def)
  have q: "\<And>i. callErr (replyWith (None, Some throttled) () i (0::nat)) = Some throttled"
    by (simp add: replyWith_def callErr_def)
  show ?thesis
    using query_error_fail_safe [where cfg = "failingConfig throttled" and ctx = "()"
        and ecsClusterArn = "''c''" and taskArn = "''t''" and arn = "''a''" and url = "''u''"
        and instanceID = "''i''" and w = 0 and e = throttled and e' = throttled]
    by (simp add: failingConfig_def nf q)
qed

subsection \<open>The loop over the returned tasks\<close>

lemma rangeTasks_skip:
  "\<forall>x \<in> set pre. TaskArn x \<noteq> Some taskArn \<Longrightarrow>
   rangeTasks lg taskArn (pre @ rest) = rangeTasks lg taskArn rest"
  by (induction pre) simp_all

lemma rangeTasks_none:
  "\<forall>x \<in> set tasks. TaskArn x \<noteq> Some taskArn \<Longrightarrow> rangeTasks lg taskArn tasks = None"
  using rangeTasks_skip [of tasks taskArn lg "[]"] by simp

lemma rangeTasks_hit:
  "TaskArn ta = Some taskArn \<Longrightarrow>
   \<exists>lgs. rangeTasks lg taskArn (ta # post) =
     Some (case LastStatus ta of
             None \<Rightarrow> (True, None)
           | Some st \<Rightarrow>
               (st \<notin> {''DEACTIVATING'', ''STOPPING'', ''DEPROVISIONING'', ''STOPPED'', ''DELETED''},
                None), lgs)"
  by (auto split: option.splits)

lemma rangeTasks_find:
  "find (\<lambda>ta. TaskArn ta = Some taskArn) tasks = Some ta \<Longrightarrow>
   \<exists>lgs. rangeTasks lg taskArn tasks =
     Some (case LastStatus ta of
             None \<Rightarrow> (True, None)
           | Some st \<Rightarrow>
               (st \<notin> {''DEACTIVATING'', ''STOPPING'', ''DEPROVISIONING'', ''STOPPED'', ''DELETED''},
                None), lgs)"
proof (induction tasks)
  case Nil
  then show ?case by simp
next
  case (Cons x xs)
  show ?case
  proof (cases "TaskArn x = Some taskArn")
    case True
    with Cons.prems have "x = ta" by simp
    with True show ?thesis using rangeTasks_hit [of ta taskArn lg xs] by simp
  next
    case False
    with Cons show ?thesis by simp
  qed
qed

lemma isTaskActive_returned_in_loop:
  assumes "callErr (ecs_DescribeTasks cfg ctx
             \<lparr>DescribeTasks_Cluster = Some ecsClusterArn, DescribeTasks_Tasks = [taskArn]\<rparr> w) = None"
    and "callOut (ecs_DescribeTasks cfg ctx
             \<lparr>DescribeTasks_Cluster = Some ecsClusterArn, DescribeTasks_Tasks = [taskArn]\<rparr> w) =
           Some resp"
    and "rangeTasks (slog_With [(''arn'', taskArn), (''cluster_arn'', ecsClusterArn)])
           taskArn (Tasks resp) = Some (r, lgs)"
  shows "outcomeOf (isTaskActive cfg ctx ecsClusterArn taskArn w) = Returns r"
  using assms
  by (auto simp add: isTaskActive_def Let_def aws_String_def outcomeOf_simp callErr_def callOut_def
        split: prod.splits)

lemma isTaskActive_loop_finished:
  assumes "callErr (ecs_DescribeTasks cfg ctx
             \<lparr>DescribeTasks_Cluster = Some ecsClusterArn, DescribeTasks_Tasks = [taskArn]\<rparr> w) = None"
    and "callOut (ecs_DescribeTasks cfg ctx
             \<lparr>DescribeTasks_Cluster = Some ecsClusterArn, DescribeTasks_Tasks = [taskArn]\<rparr> w) =
           Some resp"
    and "rangeTasks (slog_With [(''arn'', taskArn), (''cluster_arn'', ecsClusterArn)])
           taskArn (Tasks resp) = None"
  shows "outcomeOf (isTaskActive cfg ctx ecsClusterArn taskArn w) = Returns (False, None)"
  using assms
  by (auto simp add: isTaskActive_def Let_def aws_String_def outcomeOf_simp callErr_def callOut_def
        split: prod.splits)

text \<open>
  C3, as stated, fails: the query succeeds and returns an entry whose ARN is the queried
  one and whose status is readable and is \<^verbatim>\<open>STOPPED\<close>, yet the verdict is active, because
  an earlier entry with the same ARN and no readable status ended the loop.
\<close>

theorem later_stopped_entry_counterexample:
  "callErr (ecs_DescribeTasks
      (idleConfig\<lparr>ecs_DescribeTasks := replyWith (Some unreadableThenStopped, None)\<rparr>) ()
      \<lparr>DescribeTasks_Cluster = Some ''c'', DescribeTasks_Tasks = [''t'']\<rparr> 0) = None \<and>
   callOut (ecs_DescribeTasks
      (idleConfig\<lparr>ecs_DescribeTasks := replyWith (Some unreadableThenStopped, None)\<rparr>) ()
      \<lparr>DescribeTasks_Cluster = Some ''c'', DescribeTasks_Tasks = [''t'']\<rparr> 0) =
     Some unreadableThenStopped \<and>
   Tasks unreadableThenStopped ! 1 = \<lparr>TaskArn = Some ''t'', LastStatus = Some ''STOPPED''\<rparr> \<and>
   outcomeOf (isTaskActive
      (idleConfig\<lparr>ecs_DescribeTasks := replyWith (Some unreadableThenStopped, None)\<rparr>) ()
      ''c'' ''t'' 0) = Returns (True, None)"
  by (simp add: isTaskActive_def Let_def aws_String_def outcomeOf_simp callErr_def callOut_def
        idleConfig_def replyWith_def unreadableThenStopped_def slog_With_def)

text \<open>
  C3, amended: when the task query succeeds (a nil error and a response) and the first
  returned entry whose ARN equals the queried task ARN has a readable status, the verdict is inactive (\<open>False\<close>) exactly
  when that status is one of \<^verbatim>\<open>DEACTIVATING\<close>, \<^verbatim>\<open>STOPPING\<close>, \<^verbatim>\<open>DEPROVISIONING\<close>,
  \<^verbatim>\<open>STOPPED\<close>, \<^verbatim>\<open>DELETED\<close>, and active (\<open>True\<close>) for every other status; the error
  is nil.
\<close>

theorem first_matching_task_status:
  assumes "callErr (ecs_DescribeTasks cfg ctx
             \<lparr>DescribeTasks_Cluster = Some ecsClusterArn, DescribeTasks_Tasks = [taskArn]\<rparr> w) = None"
    and "callOut (ecs_DescribeTasks cfg ctx
             \<lparr>DescribeTasks_Cluster = Some ecsClusterArn, DescribeTasks_Tasks = [taskArn]\<rparr> w) =
           Some resp"
    and "find (\<lambda>ta. TaskArn ta = Some taskArn) (Tasks resp) = Some ta"
    and "LastStatus ta = Some st"
  shows "outcomeOf (isTaskActive cfg ctx ecsClusterArn taskArn w) =
           Returns (st \<notin> {''DEACTIVATING'', ''STOPPING'', ''DEPROVISIONING'', ''STOPPED'', ''DELETED''},
                    None)"
proof -
  obtain lgs where
    "rangeTasks (slog_With [(''arn'', taskArn), (''cluster_arn'', ecsClusterArn)])
       taskArn (Tasks resp) =
     Some ((st \<notin> {''DEACTIVATING'', ''STOPPING'', ''DEPROVISIONING'', ''STOPPED'', ''DELETED''},
            None), lgs)"
    using rangeTasks_find [OF assms(3)] assms(4) by auto
  then show ?thesis
    by (rule isTaskActive_returned_in_loop [OF assms(1,2)])
qed

theorem first_matching_task_status_witness:
  "callErr (ecs_DescribeTasks
      (idleConfig\<lparr>ecs_DescribeTasks := replyWith (Some stoppedTask, None)\<rparr>) ()
      \<lparr>DescribeTasks_Cluster = Some ''arn:aws:ecs:cluster/demo'',
       DescribeTasks_Tasks = [''arn:aws:ecs:task/123'']\<rparr> 0) = None \<and>
   callOut (ecs_DescribeTasks
      (idleConfig\<lparr>ecs_DescribeTasks := replyWith (Some stoppedTask, None)\<rparr>) ()
      \<lparr>DescribeTasks_Cluster = Some ''arn:aws:ecs:cluster/demo'',
       DescribeTasks_Tasks = [''arn:aws:ecs:task/123'']\<rparr> 0) = Some stoppedTask \<and>
   find (\<lambda>ta. TaskArn ta = Some ''arn:aws:ecs:task/123'') (Tasks stoppedTask) =
     Some \<lparr>TaskArn = Some ''arn:aws:ecs:task/123'', LastStatus = Some ''STOPPED''\<rparr> \<and>
   outcomeOf (isTaskActive
      (idleConfig\<lparr>ecs_DescribeTasks := replyWith (Some stoppedTask, None)\<rparr>) ()
      ''arn:aws:ecs:cluster/demo'' ''arn:aws:ecs:task/123'' 0) = Returns (False, None)"
proof -
  let ?cfg = "idleConfig\<lparr>ecs_DescribeTasks := replyWith (Some stoppedTask, None)\<rparr>"
  let ?q = "ecs_DescribeTasks ?cfg ()
      \<lparr>DescribeTasks_Cluster = Some ''arn:aws:ecs:cluster/demo'',
       DescribeTasks_Tasks = [''arn:aws:ecs:task/123'']\<rparr> 0"
  have e: "callErr ?q = None"
    by (simp add: callErr_def replyWith_def)
  have out: "callOut ?q = Some stoppedTask"
    by (simp add: callOut_def replyWith_def)
  have f: "find (\<lambda>ta. TaskArn ta = Some ''arn:aws:ecs:task/123'') (Tasks stoppedTask) =
     Some \<lparr>TaskArn = Some ''arn:aws:ecs:task/123'', LastStatus = Some ''STOPPED''\<rparr>"
    by (simp add: stoppedTask_def)
  have "outcomeOf (isTaskActive ?cfg ()
      ''arn:aws:ecs:cluster/demo'' ''arn:aws:ecs:task/123'' 0) = Returns (False, None)"
    using first_matching_task_status [OF e out f] by simp
  with e out f show ?thesis by blast
qed

text \<open>
  C9: for a task query that answered (a nil error and a response), the first returned
  entry whose ARN equals the queried task ARN alone decides the verdict. Entries before it, with another ARN or
  none, are skipped; whatever follows it is ignored. Such an entry with no readable
  status gives active with a nil error, one with a readable status gives inactive for
  the five stopping statuses and active otherwise; when no entry has the queried ARN the
  verdict is inactive with a nil error.
\<close>

theorem first_matching_task_decides:
  assumes "callErr (ecs_DescribeTasks cfg ctx
             \<lparr>DescribeTasks_Cluster = Some ecsClusterArn, DescribeTasks_Tasks = [taskArn]\<rparr> w) = None"
    and "callOut (ecs_DescribeTasks cfg ctx
             \<lparr>DescribeTasks_Cluster = Some ecsClusterArn, DescribeTasks_Tasks = [taskArn]\<rparr> w) =
           Some resp"
  shows "((\<forall>x \<in> set (Tasks resp). TaskArn x \<noteq> Some taskArn) \<longrightarrow>
            outcomeOf (isTaskActive cfg ctx ecsClusterArn taskArn w) = Returns (False, None)) \<and>
         (Tasks resp = pre @ ta # post \<and>
          (\<forall>x \<in> set pre. TaskArn x \<noteq> Some taskArn) \<and> TaskArn ta = Some taskArn \<longrightarrow>
            outcomeOf (isTaskActive cfg ctx ecsClusterArn taskArn w) =
              Returns (case LastStatus ta of
                         None \<Rightarrow> (True, None)
                       | Some st \<Rightarrow>
                           (st \<notin> {''DEACTIVATING'', ''STOPPING'', ''DEPROVISIONING'',
                                  ''STOPPED'', ''DELETED''},
                            None)))"
proof (intro conjI impI)
  assume "\<forall>x \<in> set (Tasks resp). TaskArn x \<noteq> Some taskArn"
  then have "rangeTasks (slog_With [(''arn'', taskArn), (''cluster_arn'', ecsClusterArn)])
               taskArn (Tasks resp) = None"
    by (rule rangeTasks_none)
  then show "outcomeOf (isTaskActive cfg ctx ecsClusterArn taskArn w) = Returns (False, None)"
    by (rule isTaskActive_loop_finished [OF assms])
next
  assume h: "Tasks resp = pre @ ta # post \<and>
          (\<forall>x \<in> set pre. TaskArn x \<noteq> Some taskArn) \<and> TaskArn ta = Some taskArn"
  then obtain lgs where
    "rangeTasks (slog_With [(''arn'', taskArn), (''cluster_arn'', ecsClusterArn)])
       taskArn (Tasks resp) =
     Some (case LastStatus ta of
             None \<Rightarrow> (True, None)
           | Some st \<Rightarrow>
               (st \<notin> {''DEACTIVATING'', ''STOPPING'', ''DEPROVISIONING'', ''STOPPED'', ''DELETED''},
                None), lgs)"
    using rangeTasks_hit [of ta taskArn _ post] by (auto simp add: rangeTasks_skip)
  then show "outcomeOf (isTaskActive cfg ctx ecsClusterArn taskArn w) =
              Returns (case LastStatus ta of
                         None \<Rightarrow> (True, None)
                       | Some st \<Rightarrow>
                           (st \<notin> {''DEACTIVATING'', ''STOPPING'', ''DEPROVISIONING'',
                                  ''STOPPED'', ''DELETED''},
                            None))"
    by (rule isTaskActive_returned_in_loop [OF assms])
qed

theorem first_matching_task_decides_witness:
  "callErr (ecs_DescribeTasks
      (idleConfig\<lparr>ecs_DescribeTasks := replyWith (Some noMatchingTask, None)\<rparr>) ()
      \<lparr>DescribeTasks_Cluster = Some ''c'', DescribeTasks_Tasks = [''t'']\<rparr> 0) = None \<and>
   callOut (ecs_DescribeTasks
      (idleConfig\<lparr>ecs_DescribeTasks := replyWith (Some noMatchingTask, None)\<rparr>) ()
      \<lparr>DescribeTasks_Cluster = Some ''c'', DescribeTasks_Tasks = [''t'']\<rparr> 0) =
     Some noMatchingTask \<and>
   list_all (\<lambda>x. TaskArn x \<noteq> Some ''t'') (Tasks noMatchingTask) \<and>
   outcomeOf (isTaskActive
      (idleConfig\<lparr>ecs_DescribeTasks := replyWith (Some noMatchingTask, None)\<rparr>) ()
      ''c'' ''t'' 0) = Returns (False, None) \<and>
   callErr (ecs_DescribeTasks
      (idleConfig\<lparr>ecs_DescribeTasks := replyWith (Some mixedTasks, None)\<rparr>) ()
      \<lparr>DescribeTasks_Cluster = Some ''c'', DescribeTasks_Tasks = [''t'']\<rparr> 0) = None \<and>
   callOut (ecs_DescribeTasks
      (idleConfig\<lparr>ecs_DescribeTasks := replyWith (Some mixedTasks, None)\<rparr>) ()
      \<lparr>DescribeTasks_Cluster = Some ''c'', DescribeTasks_Tasks = [''t'']\<rparr> 0) =
     Some mixedTasks \<and>
   Tasks mixedTasks =
     [\<lparr>TaskArn = None, LastStatus = Some ''RUNNING''\<rparr>,
      \<lparr>TaskArn = Some ''other'', LastStatus = Some ''RUNNING''\<rparr>] @
     \<lparr>TaskArn = Some ''t'', LastStatus = None\<rparr> #
     [\<lparr>TaskArn = Some ''t'', LastStatus = Some ''STOPPED''\<rparr>] \<and>
   list_all (\<lambda>x. TaskArn x \<noteq> Some ''t'')
     [\<lparr>TaskArn = None, LastStatus = Some ''RUNNING''\<rparr>,
      \<lparr>TaskArn = Some ''other'', LastStatus = Some ''RUNNING''\<rparr>] \<and>
   outcomeOf (isTaskActive
      (idleConfig\<lparr>ecs_DescribeTasks := replyWith (Some mixedTasks, None)\<rparr>) ()
      ''c'' ''t'' 0) = Returns (True, None)"
proof -
  let ?cfgA = "idleConfig\<lparr>ecs_DescribeTasks := replyWith (Some noMatchingTask, None)\<rparr>"
  let ?cfgB = "idleConfig\<lparr>ecs_DescribeTasks := replyWith (Some mixedTasks, None)\<rparr>"
  let ?inp = "\<lparr>DescribeTasks_Cluster = Some ''c'', DescribeTasks_Tasks = [''t'']\<rparr>"
  let ?pre = "[\<lparr>TaskArn = None, LastStatus = Some ''RUNNING''\<rparr>,
      \<lparr>TaskArn = Some ''other'', LastStatus = Some ''RUNNING''\<rparr>]"
  let ?ta = "\<lparr>TaskArn = Some ''t'', LastStatus = None\<rparr>"
  let ?post = "[\<lparr>TaskArn = Some ''t'', LastStatus = Some ''STOPPED''\<rparr>]"
  have eA: "callErr (ecs_DescribeTasks ?cfgA () ?inp 0) = None"
    by (simp add: callErr_def replyWith_def)
  have oA: "callOut (ecs_DescribeTasks ?cfgA () ?inp 0) = Some noMatchingTask"
    by (simp add: callOut_def replyWith_def)
  have nA: "list_all (\<lambda>x. TaskArn x \<noteq> Some ''t'') (Tasks noMatchingTask)"
    by (simp add: noMatchingTask_def)
  have rA: "outcomeOf (isTaskActive ?cfgA () ''c'' ''t'' 0) = Returns (False, None)"
    using first_matching_task_decides [OF eA oA] nA by (simp add: list_all_iff)
  have eB: "callErr (ecs_DescribeTasks ?cfgB () ?inp 0) = None"
    by (simp add: callErr_def replyWith_def)
  have oB: "callOut (ecs_DescribeTasks ?cfgB () ?inp 0) = Some mixedTasks"
    by (simp add: callOut_def replyWith_def)
  have sB: "Tasks mixedTasks = ?pre @ ?ta # ?post"
    by (simp add: mixedTasks_def)
  have nB: "list_all (\<lambda>x. TaskArn x \<noteq> Some ''t'') ?pre"
    by simp
  have rB: "outcomeOf (isTaskActive ?cfgB () ''c'' ''t'' 0) = Returns (True, None)"
    using first_matching_task_decides [OF eB oB, of ?pre ?ta ?post] sB nB by simp
  from eA oA nA rA eB oB sB nB rB show ?thesis by blast
qed

subsection \<open>Task definition\<close>

text \<open>
  C4: when the task definition query succeeds (a nil error and a response), the verdict is active (\<open>True\<close>) exactly
  when the response holds a definition whose ARN equals the queried ref and whose status
  is the \<^verbatim>\<open>ACTIVE\<close> value. No definition, another ARN or none, or any other status give
  inactive (\<open>False\<close>). The error is nil in every case.
\<close>

theorem task_definition_verdict:
  assumes "callErr (ecs_DescribeTaskDefinition cfg ctx
             \<lparr>DescribeTaskDefinition_TaskDefinition = Some arn\<rparr> w) = None"
    and "callOut (ecs_DescribeTaskDefinition cfg ctx
             \<lparr>DescribeTaskDefinition_TaskDefinition = Some arn\<rparr> w) = Some resp"
  shows "outcomeOf (isTaskDefinitionActive cfg ctx arn w) =
           Returns ((\<exists>td. TaskDefinition resp = Some td \<and> TaskDefinitionArn td = Some arn \<and>
                          Status td = TaskDefinitionStatusActive),
                    None)"
  using assms
  by (auto simp add: isTaskDefinitionActive_def Let_def aws_String_def outcomeOf_simp
        callErr_def callOut_def split: prod.splits option.splits)

theorem task_definition_verdict_witness:
  "callErr (ecs_DescribeTaskDefinition
      (idleConfig\<lparr>ecs_DescribeTaskDefinition := replyWith (Some inactiveDefinition, None)\<rparr>) ()
      \<lparr>DescribeTaskDefinition_TaskDefinition = Some ''arn:task-definition/foo:3''\<rparr> 0) = None \<and>
   callOut (ecs_DescribeTaskDefinition
      (idleConfig\<lparr>ecs_DescribeTaskDefinition := replyWith (Some inactiveDefinition, None)\<rparr>) ()
      \<lparr>DescribeTaskDefinition_TaskDefinition = Some ''arn:task-definition/foo:3''\<rparr> 0) =
     Some inactiveDefinition \<and>
   outcomeOf (isTaskDefinitionActive
      (idleConfig\<lparr>ecs_DescribeTaskDefinition := replyWith (Some inactiveDefinition, None)\<rparr>) ()
      ''arn:task-definition/foo:3'' 0) = Returns (False, None) \<and>
   callErr (ecs_DescribeTaskDefinition
      (idleConfig\<lparr>ecs_DescribeTaskDefinition := replyWith (Some activeDefinition, None)\<rparr>) ()
      \<lparr>DescribeTaskDefinition_TaskDefinition = Some ''arn:task-definition/foo:3''\<rparr> 0) = None \<and>
   callOut (ecs_DescribeTaskDefinition
      (idleConfig\<lparr>ecs_DescribeTaskDefinition := replyWith (Some activeDefinition, None)\<rparr>) ()
      \<lparr>DescribeTaskDefinition_TaskDefinition = Some ''arn:task-definition/foo:3''\<rparr> 0) =
     Some activeDefinition \<and>
   outcomeOf (isTaskDefinitionActive
      (idleConfig\<lparr>ecs_DescribeTaskDefinition := replyWith (Some activeDefinition, None)\<rparr>) ()
      ''arn:task-definition/foo:3'' 0) = Returns (True, None)"
proof -
  let ?cfgA = "idleConfig\<lparr>ecs_DescribeTaskDefinition := replyWith (Some inactiveDefinition, None)\<rparr>"
  let ?cfgB = "idleConfig\<lparr>ecs_DescribeTaskDefinition := replyWith (Some activeDefinition, None)\<rparr>"
  let ?inp = "\<lparr>DescribeTaskDefinition_TaskDefinition = Some ''arn:task-definition/foo:3''\<rparr>"
  have eA: "callErr (ecs_DescribeTaskDefinition ?cfgA () ?inp 0) = None"
    by (simp add: callErr_def replyWith_def)
  have oA: "callOut (ecs_DescribeTaskDefinition ?cfgA () ?inp 0) = Some inactiveDefinition"
    by (simp add: callOut_def replyWith_def)
  have rA: "outcomeOf (isTaskDefinitionActive ?cfgA () ''arn:task-definition/foo:3'' 0) =
              Returns (False, None)"
    using task_definition_verdict [OF eA oA]
    by (simp add: inactiveDefinition_def TaskDefinitionStatusActive_def)
  have eB: "callErr (ecs_DescribeTaskDefinition ?cfgB () ?inp 0) = None"
    by (simp add: callErr_def replyWith_def)
  have oB: "callOut (ecs_DescribeTaskDefinition ?cfgB () ?inp 0) = Some activeDefinition"
    by (simp add: callOut_def replyWith_def)
  have rB: "outcomeOf (isTaskDefinitionActive ?cfgB () ''arn:task-definition/foo:3'' 0) =
              Returns (True, None)"
    using task_definition_verdict [OF eB oB]
    by (simp add: activeDefinition_def TaskDefinitionStatusActive_def)
  from eA oA rA eB oB rB show ?thesis by blast
qed

subsection \<open>Subscription and queue\<close>

lemma isSnsNotFound_iff:
  "isSnsNotFound e =
     (\<exists>apiError. errors_As_APIError e = Some apiError \<and> dynType apiError = SnsNotFoundException)"
  by (auto simp add: isSnsNotFound_def split: option.splits dyntype.splits)

text \<open>
  C5: when the get-subscription-attributes query fails and the API error found in the
  returned error is the provider's not-found exception, the subscription oracle returns
  inactive (\<open>False\<close>) and a nil error; the failure is not propagated.
\<close>

theorem subscription_not_found_inactive:
  assumes "callErr (sns_GetSubscriptionAttributes cfg ctx
             \<lparr>GetSubscriptionAttributes_SubscriptionArn = Some arn\<rparr> w) = Some e"
    and "errors_As_APIError e = Some apiError"
    and "dynType apiError = SnsNotFoundException"
  shows "outcomeOf (isSnsSubscriptionActive cfg ctx arn w) = Returns (False, None)"
proof -
  have "isSnsNotFound e"
    using assms(2,3) by (auto simp add: isSnsNotFound_iff)
  then show ?thesis
    using isSnsSubscriptionActive_err [OF assms(1)] by simp
qed

theorem subscription_not_found_inactive_witness:
  "callErr (sns_GetSubscriptionAttributes (failingConfig subscriptionGone) ()
      \<lparr>GetSubscriptionAttributes_SubscriptionArn = Some ''arn:sub/1''\<rparr> 0) =
     Some subscriptionGone \<and>
   errors_As_APIError subscriptionGone = Some (Error SnsNotFoundException ''NotFound'' None) \<and>
   dynType (Error SnsNotFoundException ''NotFound'' None) = SnsNotFoundException \<and>
   outcomeOf (isSnsSubscriptionActive (failingConfig subscriptionGone) () ''arn:sub/1'' 0) =
     Returns (False, None)"
proof -
  let ?q = "sns_GetSubscriptionAttributes (failingConfig subscriptionGone) ()
      \<lparr>GetSubscriptionAttributes_SubscriptionArn = Some ''arn:sub/1''\<rparr> 0"
  have e: "callErr ?q = Some subscriptionGone"
    by (simp add: failingConfig_def callErr_def replyWith_def)
  have a: "errors_As_APIError subscriptionGone = Some (Error SnsNotFoundException ''NotFound'' None)"
    by (simp add: subscriptionGone_def)
  have d: "dynType (Error SnsNotFoundException ''NotFound'' None) = SnsNotFoundException"
    by simp
  have "outcomeOf (isSnsSubscriptionActive (failingConfig subscriptionGone) () ''arn:sub/1'' 0) =
     Returns (False, None)"
    by (rule subscription_not_found_inactive [OF e a d])
  with e a d show ?thesis by blast
qed

text \<open>
  C2: the queue oracle, when the queue-attributes query fails because the queue does not
  exist. The error the provider returns for that is \<^verbatim>\<open>*sqstypes.QueueDoesNotExist\<close>;
  the oracle's type switch names \<^verbatim>\<open>*snstypes.NotFoundException\<close>, so the run below
  ends with the verdict active and the wrapped error instead of inactive and nil.
\<close>

theorem queue_does_not_exist_reported_active:
  "outcomeOf (isSqsQueueActive (failingConfig queueGone) () ''https://sqs/q1'' 0) =
     Returns (True, Some (fmt_Errorf_w ''get subscription attributes: '' queueGone))"
proof -
  have "callErr (sqs_GetQueueAttributes (failingConfig queueGone) ()
      \<lparr>GetQueueAttributes_QueueUrl = Some ''https://sqs/q1'',
       GetQueueAttributes_AttributeNames = [''QueueArn'']\<rparr> 0) = Some queueGone"
    by (simp add: failingConfig_def callErr_def replyWith_def)
  moreover have "\<not> isSnsNotFound queueGone"
    by (simp add: isSnsNotFound_def queueGone_def)
  ultimately show ?thesis
    using isSqsQueueActive_err [of "failingConfig queueGone" "()" "''https://sqs/q1''" 0 queueGone]
    by simp
qed

lemma isSnsSubscriptionActive_ok:
  assumes "callErr (sns_GetSubscriptionAttributes cfg ctx
             \<lparr>GetSubscriptionAttributes_SubscriptionArn = Some arn\<rparr> w) = None"
  shows "outcomeOf (isSnsSubscriptionActive cfg ctx arn w) =
           Returns (case callOut (sns_GetSubscriptionAttributes cfg ctx
                          \<lparr>GetSubscriptionAttributes_SubscriptionArn = Some arn\<rparr> w) of
                      None \<Rightarrow> (False, None)
                    | Some resp \<Rightarrow>
                        (case sns_Attributes resp of
                           None \<Rightarrow> (False, None)
                         | Some attrs \<Rightarrow> (index_map attrs ''TopicArn'' \<noteq> [], None)))"
  using assms
  by (auto simp add: isSnsSubscriptionActive_def Let_def aws_String_def outcomeOf_simp
        callErr_def callOut_def split: prod.splits option.splits)

lemma isSqsQueueActive_ok:
  assumes "callErr (sqs_GetQueueAttributes cfg ctx
             \<lparr>GetQueueAttributes_QueueUrl = Some url,
              GetQueueAttributes_AttributeNames = [''QueueArn'']\<rparr> w) = None"
  shows "outcomeOf (isSqsQueueActive cfg ctx url w) =
           Returns (case callOut (sqs_GetQueueAttributes cfg ctx
                          \<lparr>GetQueueAttributes_QueueUrl = Some url,
                           GetQueueAttributes_AttributeNames = [''QueueArn'']\<rparr> w) of
                      None \<Rightarrow> (False, None)
                    | Some resp \<Rightarrow>
                        (case sqs_Attributes resp of
                           None \<Rightarrow> (False, None)
                         | Some attrs \<Rightarrow> (index_map attrs ''QueueArn'' \<noteq> [], None)))"
  using assms
  by (auto simp add: isSqsQueueActive_def Let_def aws_String_def outcomeOf_simp
        QueueAttributeNameQueueArn_def callErr_def callOut_def split: prod.splits option.splits)

text \<open>
  C7: when the subscription query, or the queue query, succeeds and its response has no
  attribute map, an empty one, or one in which \<^verbatim>\<open>TopicArn\<close> (for the queue:
  \<^verbatim>\<open>QueueArn\<close>) is absent or the empty string, the oracle returns inactive (\<open>False\<close>)
  with a nil error.
\<close>

theorem no_arn_attribute_inactive:
  "(callErr (sns_GetSubscriptionAttributes cfg ctx
       \<lparr>GetSubscriptionAttributes_SubscriptionArn = Some arn\<rparr> w) = None \<and>
    callOut (sns_GetSubscriptionAttributes cfg ctx
       \<lparr>GetSubscriptionAttributes_SubscriptionArn = Some arn\<rparr> w) = Some sresp \<and>
    (sns_Attributes sresp = None \<or> sns_Attributes sresp = Some Map.empty \<or>
     (\<exists>m. sns_Attributes sresp = Some m \<and> (m ''TopicArn'' = None \<or> m ''TopicArn'' = Some []))) \<longrightarrow>
      outcomeOf (isSnsSubscriptionActive cfg ctx arn w) = Returns (False, None)) \<and>
   (callErr (sqs_GetQueueAttributes cfg ctx
       \<lparr>GetQueueAttributes_QueueUrl = Some url,
        GetQueueAttributes_AttributeNames = [''QueueArn'']\<rparr> w) = None \<and>
    callOut (sqs_GetQueueAttributes cfg ctx
       \<lparr>GetQueueAttributes_QueueUrl = Some url,
        GetQueueAttributes_AttributeNames = [''QueueArn'']\<rparr> w) = Some qresp \<and>
    (sqs_Attributes qresp = None \<or> sqs_Attributes qresp = Some Map.empty \<or>
     (\<exists>m. sqs_Attributes qresp = Some m \<and> (m ''QueueArn'' = None \<or> m ''QueueArn'' = Some []))) \<longrightarrow>
      outcomeOf (isSqsQueueActive cfg ctx url w) = Returns (False, None))"
proof (intro conjI impI)
  assume h: "callErr (sns_GetSubscriptionAttributes cfg ctx
       \<lparr>GetSubscriptionAttributes_SubscriptionArn = Some arn\<rparr> w) = None \<and>
    callOut (sns_GetSubscriptionAttributes cfg ctx
       \<lparr>GetSubscriptionAttributes_SubscriptionArn = Some arn\<rparr> w) = Some sresp \<and>
    (sns_Attributes sresp = None \<or> sns_Attributes sresp = Some Map.empty \<or>
     (\<exists>m. sns_Attributes sresp = Some m \<and> (m ''TopicArn'' = None \<or> m ''TopicArn'' = Some [])))"
  then have "outcomeOf (isSnsSubscriptionActive cfg ctx arn w) =
           Returns (case sns_Attributes sresp of
                           None \<Rightarrow> (False, None)
                         | Some attrs \<Rightarrow> (index_map attrs ''TopicArn'' \<noteq> [], None))"
    using isSnsSubscriptionActive_ok [of cfg ctx arn w] by simp
  with h show "outcomeOf (isSnsSubscriptionActive cfg ctx arn w) = Returns (False, None)"
    by (auto simp add: index_map_def)
next
  assume h: "callErr (sqs_GetQueueAttributes cfg ctx
       \<lparr>GetQueueAttributes_QueueUrl = Some url,
        GetQueueAttributes_AttributeNames = [''QueueArn'']\<rparr> w) = None \<and>
    callOut (sqs_GetQueueAttributes cfg ctx
       \<lparr>GetQueueAttributes_QueueUrl = Some url,
        GetQueueAttributes_AttributeNames = [''QueueArn'']\<rparr> w) = Some qresp \<and>
    (sqs_Attributes qresp = None \<or> sqs_Attributes qresp = Some Map.empty \<or>
     (\<exists>m. sqs_Attributes qresp = Some m \<and> (m ''QueueArn'' = None \<or> m ''QueueArn'' = Some [])))"
  then have "outcomeOf (isSqsQueueActive cfg ctx url w) =
           Returns (case sqs_Attributes qresp of
                           None \<Rightarrow> (False, None)
                         | Some attrs \<Rightarrow> (index_map attrs ''QueueArn'' \<noteq> [], None))"
    using isSqsQueueActive_ok [of cfg ctx url w] by simp
  with h show "outcomeOf (isSqsQueueActive cfg ctx url w) = Returns (False, None)"
    by (auto simp add: index_map_def)
qed

theorem no_arn_attribute_inactive_witness:
  "callErr (sns_GetSubscriptionAttributes
      (idleConfig\<lparr>sns_GetSubscriptionAttributes := replyWith (Some emptySubscription, None),
                  sqs_GetQueueAttributes := replyWith (Some emptyQueue, None)\<rparr>) ()
      \<lparr>GetSubscriptionAttributes_SubscriptionArn = Some ''arn:sub/1''\<rparr> 0) = None \<and>
   callOut (sns_GetSubscriptionAttributes
      (idleConfig\<lparr>sns_GetSubscriptionAttributes := replyWith (Some emptySubscription, None),
                  sqs_GetQueueAttributes := replyWith (Some emptyQueue, None)\<rparr>) ()
      \<lparr>GetSubscriptionAttributes_SubscriptionArn = Some ''arn:sub/1''\<rparr> 0) =
     Some emptySubscription \<and>
   sns_Attributes emptySubscription = Some Map.empty \<and>
   outcomeOf (isSnsSubscriptionActive
      (idleConfig\<lparr>sns_GetSubscriptionAttributes := replyWith (Some emptySubscription, None),
                  sqs_GetQueueAttributes := replyWith (Some emptyQueue, None)\<rparr>) ()
      ''arn:sub/1'' 0) = Returns (False, None) \<and>
   callErr (sqs_GetQueueAttributes
      (idleConfig\<lparr>sns_GetSubscriptionAttributes := replyWith (Some emptySubscription, None),
                  sqs_GetQueueAttributes := replyWith (Some emptyQueue, None)\<rparr>) ()
      \<lparr>GetQueueAttributes_QueueUrl = Some ''https://sqs/q1'',
       GetQueueAttributes_AttributeNames = [''QueueArn'']\<rparr> 0) = None \<and>
   callOut (sqs_GetQueueAttributes
      (idleConfig\<lparr>sns_GetSubscriptionAttributes := replyWith (Some emptySubscription, None),
                  sqs_GetQueueAttributes := replyWith (Some emptyQueue, None)\<rparr>) ()
      \<lparr>GetQueueAttributes_QueueUrl = Some ''https://sqs/q1'',
       GetQueueAttributes_AttributeNames = [''QueueArn'']\<rparr> 0) = Some emptyQueue \<and>
   sqs_Attributes emptyQueue = Some Map.empty \<and>
   outcomeOf (isSqsQueueActive
      (idleConfig\<lparr>sns_GetSubscriptionAttributes := replyWith (Some emptySubscription, None),
                  sqs_GetQueueAttributes := replyWith (Some emptyQueue, None)\<rparr>) ()
      ''https://sqs/q1'' 0) = Returns (False, None)"
proof -
  let ?cfg = "idleConfig\<lparr>sns_GetSubscriptionAttributes := replyWith (Some emptySubscription, None),
                  sqs_GetQueueAttributes := replyWith (Some emptyQueue, None)\<rparr>"
  let ?qs = "sns_GetSubscriptionAttributes ?cfg ()
      \<lparr>GetSubscriptionAttributes_SubscriptionArn = Some ''arn:sub/1''\<rparr> 0"
  let ?qq = "sqs_GetQueueAttributes ?cfg ()
      \<lparr>GetQueueAttributes_QueueUrl = Some ''https://sqs/q1'',
       GetQueueAttributes_AttributeNames = [''QueueArn'']\<rparr> 0"
  have es: "callErr ?qs = None"
    by (simp add: callErr_def replyWith_def)
  have os: "callOut ?qs = Some emptySubscription"
    by (simp add: callOut_def replyWith_def)
  have ms: "sns_Attributes emptySubscription = Some Map.empty"
    by (simp add: emptySubscription_def)
  have eq: "callErr ?qq = None"
    by (simp add: callErr_def replyWith_def)
  have oq: "callOut ?qq = Some emptyQueue"
    by (simp add: callOut_def replyWith_def)
  have mq: "sqs_Attributes emptyQueue = Some Map.empty"
    by (simp add: emptyQueue_def)
  note T = no_arn_attribute_inactive [where cfg = ?cfg and ctx = "()" and arn = "''arn:sub/1''"
      and url = "''https://sqs/q1''" and w = 0 and sresp = emptySubscription
      and qresp = emptyQueue]
  have rs: "outcomeOf (isSnsSubscriptionActive ?cfg () ''arn:sub/1'' 0) = Returns (False, None)"
    using T es os ms by blast
  have rq: "outcomeOf (isSqsQueueActive ?cfg () ''https://sqs/q1'' 0) = Returns (False, None)"
    using T eq oq mq by blast
  from es os ms rs eq oq mq rq show ?thesis by blast
qed

text \<open>
  C10: when the subscription query, or the queue query, returns a nil error and a nil
  response, the oracle does not panic and reports no error: it returns inactive
  (\<open>False\<close>) with a nil error, the verdict it gives for an empty attribute map.
\<close>

theorem nil_response_inactive:
  "(callErr (sns_GetSubscriptionAttributes cfg ctx
       \<lparr>GetSubscriptionAttributes_SubscriptionArn = Some arn\<rparr> w) = None \<and>
    callOut (sns_GetSubscriptionAttributes cfg ctx
       \<lparr>GetSubscriptionAttributes_SubscriptionArn = Some arn\<rparr> w) = None \<longrightarrow>
      outcomeOf (isSnsSubscriptionActive cfg ctx arn w) = Returns (False, None)) \<and>
   (callErr (sqs_GetQueueAttributes cfg ctx
       \<lparr>GetQueueAttributes_QueueUrl = Some url,
        GetQueueAttributes_AttributeNames = [''QueueArn'']\<rparr> w) = None \<and>
    callOut (sqs_GetQueueAttributes cfg ctx
       \<lparr>GetQueueAttributes_QueueUrl = Some url,
        GetQueueAttributes_AttributeNames = [''QueueArn'']\<rparr> w) = None \<longrightarrow>
      outcomeOf (isSqsQueueActive cfg ctx url w) = Returns (False, None))"
  using isSnsSubscriptionActive_ok [of cfg ctx arn w] isSqsQueueActive_ok [of cfg ctx url w]
  by simp

theorem nil_response_inactive_witness:
  "callErr (sns_GetSubscriptionAttributes idleConfig ()
      \<lparr>GetSubscriptionAttributes_SubscriptionArn = Some ''arn:sub/1''\<rparr> 0) = None \<and>
   callOut (sns_GetSubscriptionAttributes idleConfig ()
      \<lparr>GetSubscriptionAttributes_SubscriptionArn = Some ''arn:sub/1''\<rparr> 0) = None \<and>
   outcomeOf (isSnsSubscriptionActive idleConfig () ''arn:sub/1'' 0) = Returns (False, None) \<and>
   callErr (sqs_GetQueueAttributes idleConfig ()
      \<lparr>GetQueueAttributes_QueueUrl = Some ''https://sqs/q1'',
       GetQueueAttributes_AttributeNames = [''QueueArn'']\<rparr> 0) = None \<and>
   callOut (sqs_GetQueueAttributes idleConfig ()
      \<lparr>GetQueueAttributes_QueueUrl = Some ''https://sqs/q1'',
       GetQueueAttributes_AttributeNames = [''QueueArn'']\<rparr> 0) = None \<and>
   outcomeOf (isSqsQueueActive idleConfig () ''https://sqs/q1'' 0) = Returns (False, None)"
proof -
  have c: "\<And>i. callErr (replyWith (None, None) () i (0::nat)) = None"
    "\<And>i. callOut (replyWith (None, None) () i (0::nat)) = None"
    by (simp_all add: replyWith_def callErr_def callOut_def)
  show ?thesis
    using nil_response_inactive [where cfg = idleConfig and ctx = "()" and arn = "''arn:sub/1''"
        and url = "''https://sqs/q1''" and w = 0]
    by (simp add: idleConfig_def c)
qed

subsection \<open>VM instance\<close>

lemma isEc2InstanceActive_ok:
  assumes "callErr (ec2_DescribeInstances cfg ctx
             \<lparr>DescribeInstances_InstanceIds = [instanceID]\<rparr> w) = None"
    and "callOut (ec2_DescribeInstances cfg ctx
             \<lparr>DescribeInstances_InstanceIds = [instanceID]\<rparr> w) = Some resp"
  shows "outcomeOf (isEc2InstanceActive cfg ctx instanceID w) =
           Returns (length (Reservations resp) \<noteq> 0, None)"
    and "filter isWarn (logOf (isEc2InstanceActive cfg ctx instanceID w)) =
           (if length (Reservations resp) = 0 \<or> length (Reservations resp) = 1 then []
            else [LogRecord LevelWarn
                    (''unexpected number of instance reservations found: '' @
                     fmt_d (length (Reservations resp)))
                    [(''instance_id'', instanceID)]])"
  using assms
  by (auto simp add: isEc2InstanceActive_def Let_def outcomeOf_simp logOf_simp
        callErr_def callOut_def slog_With_def logger_Debug_def logger_Warn_def
        simp del: fmt_d.simps split: prod.splits)

text \<open>
  C6: when the instance query succeeds (a nil error and a response), the verdict is inactive (\<open>False\<close>) for a response
  with no reservation group; active (\<open>True\<close>) with a nil error and no warning for exactly
  one; active (\<open>True\<close>) with a nil error and one warning record, which reports the number
  found, for two or more.
\<close>

theorem instance_verdict_by_reservations:
  assumes "callErr (ec2_DescribeInstances cfg ctx
             \<lparr>DescribeInstances_InstanceIds = [instanceID]\<rparr> w) = None"
    and "callOut (ec2_DescribeInstances cfg ctx
             \<lparr>DescribeInstances_InstanceIds = [instanceID]\<rparr> w) = Some resp"
  shows "(length (Reservations resp) = 0 \<longrightarrow>
            outcomeOf (isEc2InstanceActive cfg ctx instanceID w) = Returns (False, None) \<and>
            filter isWarn (logOf (isEc2InstanceActive cfg ctx instanceID w)) = []) \<and>
         (length (Reservations resp) = 1 \<longrightarrow>
            outcomeOf (isEc2InstanceActive cfg ctx instanceID w) = Returns (True, None) \<and>
            filter isWarn (logOf (isEc2InstanceActive cfg ctx instanceID w)) = []) \<and>
         (2 \<le> length (Reservations resp) \<longrightarrow>
            outcomeOf (isEc2InstanceActive cfg ctx instanceID w) = Returns (True, None) \<and>
            filter isWarn (logOf (isEc2InstanceActive cfg ctx instanceID w)) =
              [LogRecord LevelWarn
                 (''unexpected number of instance reservations found: '' @
                  fmt_d (length (Reservations resp)))
                 [(''instance_id'', instanceID)]])"
  using isEc2InstanceActive_ok [OF assms]
  by (simp del: fmt_d.simps)

theorem instance_verdict_by_reservations_witness:
  "callErr (ec2_DescribeInstances
      (idleConfig\<lparr>ec2_DescribeInstances := replyWith (Some (reservations 0), None)\<rparr>) ()
      \<lparr>DescribeInstances_InstanceIds = [''i-0123'']\<rparr> 0) = None \<and>
   callOut (ec2_DescribeInstances
      (idleConfig\<lparr>ec2_DescribeInstances := replyWith (Some (reservations 0), None)\<rparr>) ()
      \<lparr>DescribeInstances_InstanceIds = [''i-0123'']\<rparr> 0) = Some (reservations 0) \<and>
   length (Reservations (reservations 0)) = 0 \<and>
   outcomeOf (isEc2InstanceActive
      (idleConfig\<lparr>ec2_DescribeInstances := replyWith (Some (reservations 0), None)\<rparr>) ()
      ''i-0123'' 0) = Returns (False, None) \<and>
   callErr (ec2_DescribeInstances
      (idleConfig\<lparr>ec2_DescribeInstances := replyWith (Some (reservations 1), None)\<rparr>) ()
      \<lparr>DescribeInstances_InstanceIds = [''i-0123'']\<rparr> 0) = None \<and>
   callOut (ec2_DescribeInstances
      (idleConfig\<lparr>ec2_DescribeInstances := replyWith (Some (reservations 1), None)\<rparr>) ()
      \<lparr>DescribeInstances_InstanceIds = [''i-0123'']\<rparr> 0) = Some (reservations 1) \<and>
   length (Reservations (reservations 1)) = 1 \<and>
   outcomeOf (isEc2InstanceActive
      (idleConfig\<lparr>ec2_DescribeInstances := replyWith (Some (reservations 1), None)\<rparr>) ()
      ''i-0123'' 0) = Returns (True, None) \<and>
   filter isWarn (logOf (isEc2InstanceActive
      (idleConfig\<lparr>ec2_DescribeInstances := replyWith (Some (reservations 1), None)\<rparr>) ()
      ''i-0123'' 0)) = [] \<and>
   callErr (ec2_DescribeInstances
      (idleConfig\<lparr>ec2_DescribeInstances := replyWith (Some (reservations 2), None)\<rparr>) ()
      \<lparr>DescribeInstances_InstanceIds = [''i-0123'']\<rparr> 0) = None \<and>
   callOut (ec2_DescribeInstances
      (idleConfig\<lparr>ec2_DescribeInstances := replyWith (Some (reservations 2), None)\<rparr>) ()
      \<lparr>DescribeInstances_InstanceIds = [''i-0123'']\<rparr> 0) = Some (reservations 2) \<and>
   2 \<le> length (Reservations (reservations 2)) \<and>
   outcomeOf (isEc2InstanceActive
      (idleConfig\<lparr>ec2_DescribeInstances := replyWith (Some (reservations 2), None)\<rparr>) ()
      ''i-0123'' 0) = Returns (True, None) \<and>
   filter isWarn (logOf (isEc2InstanceActive
      (idleConfig\<lparr>ec2_DescribeInstances := replyWith (Some (reservations 2), None)\<rparr>) ()
      ''i-0123'' 0)) =
     [LogRecord LevelWarn ''unexpected number of instance reservations found: 2''
        [(''instance_id'', ''i-0123'')]]"
proof -
  let ?cfg = "\<lambda>n. idleConfig\<lparr>ec2_DescribeInstances := replyWith (Some (reservations n), None)\<rparr>"
  let ?inp = "\<lparr>DescribeInstances_InstanceIds = [''i-0123'']\<rparr>"
  have e: "\<And>n. callErr (ec2_DescribeInstances (?cfg n) () ?inp 0) = None"
    by (simp add: callErr_def replyWith_def)
  have out: "\<And>n. callOut (ec2_DescribeInstances (?cfg n) () ?inp 0) = Some (reservations n)"
    by (simp add: callOut_def replyWith_def)
  have len: "\<And>n. length (Reservations (reservations n)) = n"
    by (simp add: reservations_def)
  have two: "fmt_d 2 = ''2''"
    by (simp add: digit_def)
  have r0: "outcomeOf (isEc2InstanceActive (?cfg 0) () ''i-0123'' 0) = Returns (False, None)"
    using instance_verdict_by_reservations [OF e out, of 0] by (simp add: len)
  have r1: "outcomeOf (isEc2InstanceActive (?cfg 1) () ''i-0123'' 0) = Returns (True, None) \<and>
            filter isWarn (logOf (isEc2InstanceActive (?cfg 1) () ''i-0123'' 0)) = []"
    using instance_verdict_by_reservations [OF e out, of 1] by (simp add: len)
  have r2: "outcomeOf (isEc2InstanceActive (?cfg 2) () ''i-0123'' 0) = Returns (True, None) \<and>
            filter isWarn (logOf (isEc2InstanceActive (?cfg 2) () ''i-0123'' 0)) =
              [LogRecord LevelWarn ''unexpected number of instance reservations found: 2''
                 [(''instance_id'', ''i-0123'')]]"
    using instance_verdict_by_reservations [OF e out, of 2]
    by (simp add: len two del: fmt_d.simps)
  have l0: "length (Reservations (reservations 0)) = 0"
    and l1: "length (Reservations (reservations 1)) = 1"
    and l2: "2 \<le> length (Reservations (reservations 2))"
    by (simp_all add: len)
  from e [of 0] out [of 0] l0 r0 e [of 1] out [of 1] l1 r1 e [of 2] out [of 2] l2 r2
  show ?thesis by blast
qed

subsection \<open>Teardown\<close>

lemma stopEcsTask_run:
  "outcomeOf (stopEcsTask cfg ctx ecsClusterArn taskArn w) =
     Returns (map_option (fmt_Errorf_w ''stop task: '')
                (callErr (ecs_StopTask cfg ctx
                   \<lparr>StopTask_Cluster = Some ecsClusterArn, StopTask_Task = Some taskArn\<rparr> w))) \<and>
   worldOf (stopEcsTask cfg ctx ecsClusterArn taskArn w) =
     callWorld (ecs_StopTask cfg ctx
       \<lparr>StopTask_Cluster = Some ecsClusterArn, StopTask_Task = Some taskArn\<rparr> w)"
  by (auto simp add: stopEcsTask_def Let_def aws_String_def outcomeOf_simp worldOf_simp
        callErr_def callWorld_def split: prod.splits option.splits)

lemma deregisterEcsTaskDefinition_run:
  "outcomeOf (deregisterEcsTaskDefinition cfg ctx arn w) =
     Returns (map_option (fmt_Errorf_w ''deregister task definition: '')
                (callErr (ecs_DeregisterTaskDefinition cfg ctx
                   \<lparr>DeregisterTaskDefinition_TaskDefinition = Some arn\<rparr> w))) \<and>
   worldOf (deregisterEcsTaskDefinition cfg ctx arn w) =
     callWorld (ecs_DeregisterTaskDefinition cfg ctx
       \<lparr>DeregisterTaskDefinition_TaskDefinition = Some arn\<rparr> w)"
  by (auto simp add: deregisterEcsTaskDefinition_def Let_def aws_String_def outcomeOf_simp
        worldOf_simp callErr_def callWorld_def split: prod.splits option.splits)

lemma unsubscribeSqsQueue_run:
  "outcomeOf (unsubscribeSqsQueue cfg ctx arn w) =
     Returns (map_option (fmt_Errorf_w ''unsubscribe from request topic: '')
                (callErr (sns_Unsubscribe cfg ctx \<lparr>Unsubscribe_SubscriptionArn = Some arn\<rparr> w))) \<and>
   worldOf (unsubscribeSqsQueue cfg ctx arn w) =
     callWorld (sns_Unsubscribe cfg ctx \<lparr>Unsubscribe_SubscriptionArn = Some arn\<rparr> w)"
  by (auto simp add: unsubscribeSqsQueue_def Let_def aws_String_def outcomeOf_simp
        worldOf_simp callErr_def callWorld_def split: prod.splits option.splits)

lemma deleteSqsQueue_run:
  "outcomeOf (deleteSqsQueue cfg ctx queueURL w) =
     Returns (map_option (fmt_Errorf_w ''delete queue: '')
                (callErr (sqs_DeleteQueue cfg ctx \<lparr>DeleteQueue_QueueUrl = Some queueURL\<rparr> w))) \<and>
   worldOf (deleteSqsQueue cfg ctx queueURL w) =
     callWorld (sqs_DeleteQueue cfg ctx \<lparr>DeleteQueue_QueueUrl = Some queueURL\<rparr> w)"
  by (auto simp add: deleteSqsQueue_def Let_def aws_String_def outcomeOf_simp
        worldOf_simp callErr_def callWorld_def split: prod.splits option.splits)

text \<open>
  C8: each of the four teardown operations (stop task, deregister task definition,
  unsubscribe, delete queue) makes one call of its provider mutation, with the request
  built from its arguments: the provider is left in the state that one call leaves. The
  operation returns a non-nil error, the call's error wrapped, exactly when that call
  returns an error, and nil exactly when the call returns none.
\<close>

theorem teardown_propagates_mutation_error:
  "outcomeOf (stopEcsTask cfg ctx ecsClusterArn taskArn w) =
     Returns (map_option (fmt_Errorf_w ''stop task: '')
                (callErr (ecs_StopTask cfg ctx
                   \<lparr>StopTask_Cluster = Some ecsClusterArn, StopTask_Task = Some taskArn\<rparr> w))) \<and>
   ((outcomeOf (stopEcsTask cfg ctx ecsClusterArn taskArn w) = Returns None) =
    (callErr (ecs_StopTask cfg ctx
       \<lparr>StopTask_Cluster = Some ecsClusterArn, StopTask_Task = Some taskArn\<rparr> w) = None)) \<and>
   worldOf (stopEcsTask cfg ctx ecsClusterArn taskArn w) =
     callWorld (ecs_StopTask cfg ctx
       \<lparr>StopTask_Cluster = Some ecsClusterArn, StopTask_Task = Some taskArn\<rparr> w) \<and>
   outcomeOf (deregisterEcsTaskDefinition cfg ctx arn w) =
     Returns (map_option (fmt_Errorf_w ''deregister task definition: '')
                (callErr (ecs_DeregisterTaskDefinition cfg ctx
                   \<lparr>DeregisterTaskDefinition_TaskDefinition = Some arn\<rparr> w))) \<and>
   ((outcomeOf (deregisterEcsTaskDefinition cfg ctx arn w) = Returns None) =
    (callErr (ecs_DeregisterTaskDefinition cfg ctx
       \<lparr>DeregisterTaskDefinition_TaskDefinition = Some arn\<rparr> w) = None)) \<and>
   worldOf (deregisterEcsTaskDefinition cfg ctx arn w) =
     callWorld (ecs_DeregisterTaskDefinition cfg ctx
       \<lparr>DeregisterTaskDefinition_TaskDefinition = Some arn\<rparr> w) \<and>
   outcomeOf (unsubscribeSqsQueue cfg ctx sub w) =
     Returns (map_option (fmt_Errorf_w ''unsubscribe from request topic: '')
                (callErr (sns_Unsubscribe cfg ctx \<lparr>Unsubscribe_SubscriptionArn = Some sub\<rparr> w))) \<and>
   ((outcomeOf (unsubscribeSqsQueue cfg ctx sub w) = Returns None) =
    (callErr (sns_Unsubscribe cfg ctx \<lparr>Unsubscribe_SubscriptionArn = Some sub\<rparr> w) = None)) \<and>
   worldOf (unsubscribeSqsQueue cfg ctx sub w) =
     callWorld (sns_Unsubscribe cfg ctx \<lparr>Unsubscribe_SubscriptionArn = Some sub\<rparr> w) \<and>
   outcomeOf (deleteSqsQueue cfg ctx queueURL w) =
     Returns (map_option (fmt_Errorf_w ''delete queue: '')
                (callErr (sqs_DeleteQueue cfg ctx \<lparr>DeleteQueue_QueueUrl = Some queueURL\<rparr> w))) \<and>
   ((outcomeOf (deleteSqsQueue cfg ctx queueURL w) = Returns None) =
    (callErr (sqs_DeleteQueue cfg ctx \<lparr>DeleteQueue_QueueUrl = Some queueURL\<rparr> w) = None)) \<and>
   worldOf (deleteSqsQueue cfg ctx queueURL w) =
     callWorld (sqs_DeleteQueue cfg ctx \<lparr>DeleteQueue_QueueUrl = Some queueURL\<rparr> w)"
  by (simp add: stopEcsTask_run deregisterEcsTaskDefinition_run unsubscribeSqsQueue_run
        deleteSqsQueue_run)

theorem teardown_propagates_mutation_error_witness:
  "outcomeOf (stopEcsTask (failingConfig canceled) () ''c'' ''t'' 0) =
     Returns (Some (fmt_Errorf_w ''stop task: '' canceled)) \<and>
   worldOf (stopEcsTask (failingConfig canceled) () ''c'' ''t'' 0) = 1 \<and>
   outcomeOf (deregisterEcsTaskDefinition (failingConfig canceled) () ''a'' 0) =
     Returns (Some (fmt_Errorf_w ''deregister task definition: '' canceled)) \<and>
   outcomeOf (unsubscribeSqsQueue (failingConfig canceled) () ''s'' 0) =
     Returns (Some (fmt_Errorf_w ''unsubscribe from request topic: '' canceled)) \<and>
   outcomeOf (deleteSqsQueue (failingConfig canceled) () ''u'' 0) =
     Returns (Some (fmt_Errorf_w ''delete queue: '' canceled)) \<and>
   outcomeOf (stopEcsTask idleConfig () ''c'' ''t'' 0) = Returns None \<and>
   outcomeOf (deregisterEcsTaskDefinition idleConfig () ''a'' 0) = Returns None \<and>
   outcomeOf (unsubscribeSqsQueue idleConfig () ''s'' 0) = Returns None \<and>
   outcomeOf (deleteSqsQueue idleConfig () ''u'' 0) = Returns None \<and>
   worldOf (deleteSqsQueue idleConfig () ''u'' 0) = 1"
  using teardown_propagates_mutation_error [where cfg = "failingConfig canceled" and ctx = "()"
      and ecsClusterArn = "''c''" and taskArn = "''t''" and arn = "''a''" and sub = "''s''"
      and queueURL = "''u''" and w = 0]
    teardown_propagates_mutation_error [where cfg = idleConfig and ctx = "()"
      and ecsClusterArn = "''c''" and taskArn = "''t''" and arn = "''a''" and sub = "''s''"
      and queueURL = "''u''" and w = 0]
  by (simp add: failingConfig_def idleConfig_def replyWith_def callErr_def callWorld_def)

end
